theory Spec2Isabelle
  imports Complex_Main
begin

section \<open>Tensors\<close>

text \<open>
  A dense array (a torch tensor or a numpy array) is a shape together with the value at
  every index; an index is the list of its coordinates. Only the values at indices inside
  the shape mean anything. The 32-bit and 16-bit floating-point values of the source are
  idealised as real numbers.
\<close>

record 'a tensor =
  shape :: "nat list"
  elem :: "nat list \<Rightarrow> 'a"

datatype error = UnboundLocalError | IndexError | RuntimeError | IOError

text \<open>\<open>torch.zeros(shape)\<close>, \<open>np.zeros(shape)\<close>, and a tensor filled with one value.\<close>

definition full :: "nat list \<Rightarrow> 'a \<Rightarrow> 'a tensor" where
  "full sh v = \<lparr>shape = sh, elem = (\<lambda>idx. v)\<rparr>"

definition zeros :: "nat list \<Rightarrow> real tensor" where
  "zeros sh = full sh 0"

text \<open>\<open>t.size(d)\<close> for \<open>d \<ge> 0\<close>: an IndexError when the tensor has no axis \<open>d\<close>.\<close>

definition size_dim :: "'a tensor \<Rightarrow> nat \<Rightarrow> error + int" where
  "size_dim t d = (if d < length (shape t) then Inr (int (shape t ! d)) else Inl IndexError)"

text \<open>
  A bound of a Python slice on an axis of length \<open>n\<close>: a negative bound counts from the
  end, and the result is clamped to \<open>0..n\<close>. The slice \<open>start:stop\<close> selects the indices
  from \<open>slice_index start n\<close> up to, not including, \<open>slice_index stop n\<close>; it is empty
  when the second is not above the first.
\<close>

definition slice_index :: "int \<Rightarrow> nat \<Rightarrow> nat" where
  "slice_index i n = (if i < 0 then nat (max (i + int n) 0) else min (nat i) n)"

text \<open>
  \<open>t[:, :, 0:maxz, 0:maxy, 0:maxx]\<close>: the tensor needs five axes; the slices start at 0,
  so every kept element keeps its index.
\<close>

definition slice_zyx :: "'a tensor \<Rightarrow> int \<Rightarrow> int \<Rightarrow> int \<Rightarrow> error + 'a tensor" where
  "slice_zyx t maxz maxy maxx =
     (case shape t of
        n # c # z # y # x # rest \<Rightarrow>
          Inr \<lparr>shape = n # c # slice_index maxz z # slice_index maxy y # slice_index maxx x # rest,
               elem = elem t\<rparr>
      | _ \<Rightarrow> Inl IndexError)"

text \<open>\<open>t[k]\<close> for \<open>k \<ge> 0\<close>: an IndexError on a tensor with no axis, or a first axis too short.\<close>

definition select :: "'a tensor \<Rightarrow> nat \<Rightarrow> error + 'a tensor" where
  "select t k =
     (case shape t of
        [] \<Rightarrow> Inl IndexError
      | n # rest \<Rightarrow>
          if k < n then Inr \<lparr>shape = rest, elem = (\<lambda>idx. elem t (k # idx))\<rparr>
          else Inl IndexError)"

text \<open>
  Assigning a tensor to a view of another (torch's \<open>setitem\<close>) copies it when the shapes are
  equal. Otherwise the leading axes of length 1 of the assigned value are dropped and the
  rest is expanded to the view's shape, aligned at the last axis: an axis of the value
  matches when it has the view's length or length 1 (then its one element is repeated, also
  zero times). Anything else raises a RuntimeError.
\<close>

definition strip_ones :: "nat list \<Rightarrow> nat list" where
  "strip_ones s = dropWhile (\<lambda>d. d = 1) s"

definition expandable :: "nat list \<Rightarrow> nat list \<Rightarrow> bool" where
  "expandable src dst =
     (src = dst \<or>
      (let s = strip_ones src
       in length s \<le> length dst \<and>
          list_all2 (\<lambda>a b. a = b \<or> a = 1) s (drop (length dst - length s) dst)))"

text \<open>The index of the value's element that lands at index \<open>idx\<close> of the view.\<close>

definition expand_index :: "nat list \<Rightarrow> nat list \<Rightarrow> nat list" where
  "expand_index src idx =
     (let s = strip_ones src
      in replicate (length src - length s) 0 @
         map2 (\<lambda>a i. if a = 1 then 0 else i) s (drop (length idx - length s) idx))"

type_synonym pad_spec = "int \<times> int \<times> int"
type_synonym crop_window = "(int \<times> int) \<times> (int \<times> int) \<times> (int \<times> int)"

text \<open>
  \<open>segs[0, :, slice(*c[0]), slice(*c[1]), slice(*c[2])] = v\<close> on a tensor \<open>segs\<close> of five
  axes (the source only assigns into the field it has just allocated).
\<close>

definition assign_crop :: "'a tensor \<Rightarrow> crop_window \<Rightarrow> 'a tensor \<Rightarrow> error + 'a tensor" where
  "assign_crop segs c v =
     (case (shape segs, c) of
        ([n, ch, dz, dy, dx], ((z0, z1), (y0, y1), (x0, x1))) \<Rightarrow>
          if n = 0 then Inl IndexError
          else
            let lz = slice_index z0 dz; hz = slice_index z1 dz;
                ly = slice_index y0 dy; hy = slice_index y1 dy;
                lx = slice_index x0 dx; hx = slice_index x1 dx
            in if expandable (shape v) [ch, hz - lz, hy - ly, hx - lx]
               then Inr \<lparr>shape = shape segs,
                         elem = (\<lambda>idx.
                           if length idx = 5 \<and> idx ! 0 = 0 \<and> idx ! 1 < ch
                              \<and> lz \<le> idx ! 2 \<and> idx ! 2 < hz
                              \<and> ly \<le> idx ! 3 \<and> idx ! 3 < hy
                              \<and> lx \<le> idx ! 4 \<and> idx ! 4 < hx
                           then elem v (expand_index (shape v)
                                  [idx ! 1, idx ! 2 - lz, idx ! 3 - ly, idx ! 4 - lx])
                           else elem segs idx)\<rparr>
               else Inl RuntimeError
      | _ \<Rightarrow> Inl IndexError)"

section \<open>Reconstruction of a cropped prediction\<close>

text \<open>
  Lines 169 to 171: the pad amounts are subtracted from the lengths of the three spatial
  axes, and the prediction is cut to the resulting lengths.
\<close>

definition remove_pads :: "real tensor \<Rightarrow> pad_spec \<Rightarrow> error + real tensor" where
  "remove_pads pre_segs pd =
     (case pd of (p0, p1, p2) \<Rightarrow>
       (case size_dim pre_segs 2 of Inl e \<Rightarrow> Inl e | Inr s2 \<Rightarrow>
         (case size_dim pre_segs 3 of Inl e \<Rightarrow> Inl e | Inr s3 \<Rightarrow>
           (case size_dim pre_segs 4 of Inl e \<Rightarrow> Inl e | Inr s4 \<Rightarrow>
              slice_zyx pre_segs (s2 - p0) (s3 - p1) (s4 - p2)))))"

text \<open>Lines 174 and 175: a zero field of the canonical size receives the cropped prediction.\<close>

definition canonical :: "nat list" where
  "canonical = [1, 3, 155, 240, 240]"

definition place :: "real tensor \<Rightarrow> crop_window \<Rightarrow> error + real tensor" where
  "place pre_segs ci =
     (case select pre_segs 0 of
        Inl e \<Rightarrow> Inl e
      | Inr v \<Rightarrow> assign_crop (zeros canonical) ci v)"

text \<open>Lines 169 to 175, the reconstruction of one prediction.\<close>

definition reconstruct :: "real tensor \<Rightarrow> pad_spec \<Rightarrow> crop_window \<Rightarrow> error + real tensor" where
  "reconstruct pre_segs pd ci =
     (case remove_pads pre_segs pd of
        Inl e \<Rightarrow> Inl e
      | Inr t \<Rightarrow> place t ci)"

section \<open>Aggregation and label decoding\<close>

text \<open>
  \<open>torch.stack(ts)\<close> puts the tensors along a new first axis; it raises a RuntimeError on
  an empty list and on tensors of different shapes.
\<close>

definition torch_stack :: "real tensor list \<Rightarrow> error + real tensor" where
  "torch_stack ts =
     (case ts of
        [] \<Rightarrow> Inl RuntimeError
      | t # rest \<Rightarrow>
          if list_all (\<lambda>u. shape u = shape t) rest
          then Inr \<lparr>shape = length ts # shape t,
                    elem = (\<lambda>idx. case idx of
                                     [] \<Rightarrow> 0
                                   | k # r \<Rightarrow> if k < length ts then elem (ts ! k) r else 0)\<rparr>
          else Inl RuntimeError)"

text \<open>
  \<open>t.mean(dim=0)\<close>: the arithmetic mean along the first axis, which disappears. The
  source applies it to the result of \<open>torch.stack\<close> only, whose first axis is not empty.
\<close>

definition mean_dim0 :: "real tensor \<Rightarrow> real tensor" where
  "mean_dim0 t =
     (case shape t of
        [] \<Rightarrow> t
      | n # rest \<Rightarrow>
          \<lparr>shape = rest, elem = (\<lambda>idx. (\<Sum>k\<leftarrow>[0..<n]. elem t (k # idx)) / real n)\<rparr>)"

text \<open>Line 181.\<close>

definition stack_mean :: "real tensor list \<Rightarrow> error + real tensor" where
  "stack_mean model_preds =
     (case torch_stack model_preds of
        Inl e \<Rightarrow> Inl e
      | Inr s \<Rightarrow> Inr (mean_dim0 s))"

text \<open>Elementwise comparison with a constant, the logical operations and masked assignment.\<close>

definition greater_than :: "real tensor \<Rightarrow> real \<Rightarrow> bool tensor" where
  "greater_than t c = \<lparr>shape = shape t, elem = (\<lambda>idx. elem t idx > c)\<rparr>"

definition logical_not :: "bool tensor \<Rightarrow> bool tensor" where
  "logical_not a = \<lparr>shape = shape a, elem = (\<lambda>idx. \<not> elem a idx)\<rparr>"

definition logical_and :: "bool tensor \<Rightarrow> bool tensor \<Rightarrow> bool tensor" where
  "logical_and a b = \<lparr>shape = shape a, elem = (\<lambda>idx. elem a idx \<and> elem b idx)\<rparr>"

definition mask_assign :: "real tensor \<Rightarrow> bool tensor \<Rightarrow> real \<Rightarrow> real tensor" where
  "mask_assign labelmap msk v =
     \<lparr>shape = shape labelmap, elem = (\<lambda>idx. if elem msk idx then v else elem labelmap idx)\<rparr>"

text \<open>
  Lines 184 to 191. The masks and the label map all have the shape of \<open>segs[0]\<close>, so the
  operations on them are elementwise.
\<close>

definition decode_labels :: "real tensor \<Rightarrow> error + real tensor" where
  "decode_labels pre_segs =
     (case select pre_segs 0 of Inl e \<Rightarrow> Inl e | Inr p \<Rightarrow>
       (let segs = greater_than p (1 / 2) in
         (case select segs 0 of Inl e \<Rightarrow> Inl e | Inr et \<Rightarrow>
           (case select segs 1 of Inl e \<Rightarrow> Inl e | Inr segs1 \<Rightarrow>
             (let net = logical_and segs1 (logical_not et) in
               (case select segs 2 of Inl e \<Rightarrow> Inl e | Inr segs2 \<Rightarrow>
                 (let ed = logical_and segs2 (logical_not segs1);
                      labelmap0 = zeros (shape et);
                      labelmap1 = mask_assign labelmap0 et 4;
                      labelmap2 = mask_assign labelmap1 net 1;
                      labelmap3 = mask_assign labelmap2 ed 2
                  in Inr labelmap3)))))))"

text \<open>
  The label of one voxel as the specification's Label Decoder describes it, from the three
  channel probabilities of the voxel.
\<close>

definition spec_label :: "real \<Rightarrow> real \<Rightarrow> real \<Rightarrow> real" where
  "spec_label p0 p1 p2 =
     (let mask0 = p0 > 1 / 2; mask1 = p1 > 1 / 2; mask2 = p2 > 1 / 2;
          enhancing = mask0;
          necrotic = (mask1 \<and> \<not> enhancing);
          edema = (mask2 \<and> \<not> mask1);
          out0 = 0;
          out1 = (if enhancing then 4 else out0);
          out2 = (if necrotic then 1 else out1);
          out3 = (if edema then 2 else out2)
      in out3)"

section \<open>The ensemble loop\<close>

text \<open>
  The collaborators of \<open>generate_segmentations\<close> are parameters. A model is an object with
  an identity; \<open>forward\<close> is what calling it returns without deep supervision, and
  \<open>forward_deep\<close> what calling it returns with deep supervision: the primary output and
  the auxiliary ones.
\<close>

record model =
  mid :: nat
  deep_supervision :: bool
  forward :: "real tensor \<Rightarrow> real tensor"
  forward_deep :: "real tensor \<Rightarrow> real tensor \<times> real tensor list"

record batch =
  patient_id :: string
  seg_path :: string
  crop_indexes :: crop_window
  image_in :: "real tensor"

record args =
  tta :: bool
  pred_folder :: string

text \<open>
  \<open>copy_information labelmap ref_img_path\<close> stands for lines 192 to 194: the label map
  becomes an image, the reference image is read and its geometry is copied onto the label
  map. \<open>write_image labelmap ref_img_path destination\<close> stands for line 196: the image
  with that geometry is written. Each returns the error raised, if any.
\<close>

record collaborators =
  pad_batch1_to_compatible_size :: "real tensor \<Rightarrow> real tensor \<times> pad_spec"
  apply_simple_tta :: "model \<Rightarrow> real tensor \<Rightarrow> real tensor"
  copy_information :: "real tensor \<Rightarrow> string \<Rightarrow> error option"
  write_image :: "real tensor \<Rightarrow> string \<Rightarrow> string \<Rightarrow> error option"

text \<open>
  What the run does to the device, in order: an input tensor is transferred
  (\<open>inputs_minmax.cuda()\<close>, \<open>inputs_zscore.cuda()\<close>), a model is moved to the device
  (\<open>model.cuda()\<close>) or off it (\<open>model.cpu()\<close>), a model computes on the device.
\<close>

datatype event = Inputs_cuda string | Model_cuda nat | Model_cpu nat | Forward nat

text \<open>
  The lines that \<open>generate_segmentations\<close> prints: the shape of the truncated
  prediction (line 172), the shape of the reconstructed field (line 176), and the
  announcement \<open>Writing\<close> with the destination file (line 195). The function prints
  nothing else.
\<close>

datatype output_line = Pre_segs_size "nat list" | Segs_size "nat list" | Writing string

text \<open>
  The local variables that live from one iteration to the next, \<open>None\<close> while unbound,
  and the effects so far: the device events in order, the lines printed in order, and the
  files written with their label maps.
\<close>

record state =
  inputs :: "real tensor option"
  pads :: "pad_spec option"
  crops_idx :: "crop_window option"
  last_norm :: "string option"
  model_preds :: "real tensor list"
  trace :: "event list"
  printed :: "output_line list"
  written :: "(string \<times> real tensor) list"

text \<open>The two variants of a case's input, as lines 130 to 136 prepare them.\<close>

record prepared =
  inputs_minmax :: "real tensor"
  pads_minmax :: pad_spec
  crops_idx_minmax :: crop_window
  inputs_zscore :: "real tensor"
  pads_zscore :: pad_spec
  crops_idx_zscore :: crop_window

text \<open>
  Lines 141 to 150. The variants are strings; no line of the source assigns \<open>last_norm\<close>
  again after line 138.
\<close>

definition route :: "prepared \<Rightarrow> string \<Rightarrow> state \<Rightarrow> state" where
  "route p normalisation s =
     (if Some normalisation = last_norm s then s
      else if normalisation = ''minmax''
      then s\<lparr>inputs := Some (inputs_minmax p), pads := Some (pads_minmax p),
             crops_idx := Some (crops_idx_minmax p),
             trace := trace s @ [Inputs_cuda ''minmax'']\<rparr>
      else if normalisation = ''zscore''
      then s\<lparr>inputs := Some (inputs_zscore p), pads := Some (pads_zscore p),
             crops_idx := Some (crops_idx_zscore p),
             trace := trace s @ [Inputs_cuda ''zscore'']\<rparr>
      else s)"

definition sigmoid :: "real \<Rightarrow> real" where
  "sigmoid x = 1 / (1 + exp (- x))"

definition sigmoid_tensor :: "real tensor \<Rightarrow> real tensor" where
  "sigmoid_tensor t = \<lparr>shape = shape t, elem = (\<lambda>idx. sigmoid (elem t idx))\<rparr>"

text \<open>
  Lines 158 to 167: the prediction of one model, and the accumulated list, to which the
  augmented branch appends the prediction as it is.
\<close>

definition predict ::
  "collaborators \<Rightarrow> args \<Rightarrow> model \<Rightarrow> real tensor \<Rightarrow> real tensor list \<Rightarrow> real tensor \<times> real tensor list" where
  "predict E a m x preds =
     (if tta a
      then (let pre_segs = apply_simple_tta E m x in (pre_segs, preds @ [pre_segs]))
      else (let pre_segs = (if deep_supervision m then fst (forward_deep m x)
                            else forward m x)
            in (sigmoid_tensor pre_segs, preds)))"

text \<open>
  Reading a local variable raises an UnboundLocalError while it is unbound. Line 169 reads
  \<open>pads\<close> after \<open>pre_segs.size(2)\<close>, and line 175 reads \<open>crops_idx\<close> after
  \<open>pre_segs[0]\<close>.
\<close>

definition remove_pads_local :: "real tensor \<Rightarrow> pad_spec option \<Rightarrow> error + real tensor" where
  "remove_pads_local pre_segs pads_var =
     (case size_dim pre_segs 2 of
        Inl e \<Rightarrow> Inl e
      | Inr s2 \<Rightarrow>
         (case pads_var of
            None \<Rightarrow> Inl UnboundLocalError
          | Some pd \<Rightarrow> remove_pads pre_segs pd))"

definition place_local :: "real tensor \<Rightarrow> crop_window option \<Rightarrow> error + real tensor" where
  "place_local pre_segs crops_idx_var =
     (case select pre_segs 0 of
        Inl e \<Rightarrow> Inl e
      | Inr v \<Rightarrow>
         (case crops_idx_var of
            None \<Rightarrow> Inl UnboundLocalError
          | Some ci \<Rightarrow> place pre_segs ci))"

text \<open>
  Lines 141 to 179, one iteration for one model: the result is the exception raised, if
  any, and the state then. The device operations themselves are taken to succeed.
\<close>

definition model_step ::
  "collaborators \<Rightarrow> args \<Rightarrow> prepared \<Rightarrow> state \<Rightarrow> model \<times> string \<Rightarrow> error option \<times> state" where
  "model_step E a p s mn =
     (case mn of (m, normalisation) \<Rightarrow>
       (let s1 = route p normalisation s;
            s2 = s1\<lparr>trace := trace s1 @ [Model_cuda (mid m)]\<rparr>
        in (case inputs s2 of
              None \<Rightarrow> (Some UnboundLocalError, s2)
            | Some x \<Rightarrow>
               (case predict E a m x (model_preds s2) of (pre_segs, preds) \<Rightarrow>
                 (let s3 = s2\<lparr>model_preds := preds, trace := trace s2 @ [Forward (mid m)]\<rparr>
                  in (case remove_pads_local pre_segs (pads s3) of
                        Inl e \<Rightarrow> (Some e, s3)
                      | Inr t \<Rightarrow>
                         (let s4 = s3\<lparr>printed := printed s3 @ [Pre_segs_size (shape t)]\<rparr>
                          in (case place_local t (crops_idx s4) of
                                Inl e \<Rightarrow> (Some e, s4)
                              | Inr segs \<Rightarrow>
                                  (None, s4\<lparr>printed := printed s4 @ [Segs_size (shape segs)],
                                            model_preds := model_preds s4 @ [segs],
                                            trace := trace s4 @ [Model_cpu (mid m)]\<rparr>)))))))))"

fun models_loop ::
  "collaborators \<Rightarrow> args \<Rightarrow> prepared \<Rightarrow> state \<Rightarrow> (model \<times> string) list \<Rightarrow> error option \<times> state" where
  "models_loop E a p s [] = (None, s)"
| "models_loop E a p s (mn # rest) =
     (case model_step E a p s mn of
        (Some e, s') \<Rightarrow> (Some e, s')
      | (None, s') \<Rightarrow> models_loop E a p s' rest)"

text \<open>Lines 126 to 196, one case.\<close>

definition prepare :: "collaborators \<Rightarrow> batch \<times> batch \<Rightarrow> prepared" where
  "prepare E bb =
     (case bb of (batch_minmax, batch_zscore) \<Rightarrow>
       (case pad_batch1_to_compatible_size E (image_in batch_minmax) of (im, pm) \<Rightarrow>
         (case pad_batch1_to_compatible_size E (image_in batch_zscore) of (iz, pz) \<Rightarrow>
            \<lparr>inputs_minmax = im, pads_minmax = pm,
             crops_idx_minmax = crop_indexes batch_minmax,
             inputs_zscore = iz, pads_zscore = pz,
             crops_idx_zscore = crop_indexes batch_zscore\<rparr>)))"

definition destination :: "args \<Rightarrow> string \<Rightarrow> string" where
  "destination a pid = pred_folder a @ ''/'' @ pid @ ''.nii.gz''"

definition process_case ::
  "collaborators \<Rightarrow> args \<Rightarrow> model list \<Rightarrow> string list \<Rightarrow> state \<Rightarrow> batch \<times> batch \<Rightarrow> error option \<times> state" where
  "process_case E a models normalisations s bb =
     (let s0 = s\<lparr>model_preds := [], last_norm := None\<rparr>
      in (case models_loop E a (prepare E bb) s0 (zip models normalisations) of
            (Some e, s1) \<Rightarrow> (Some e, s1)
          | (None, s1) \<Rightarrow>
             (case stack_mean (model_preds s1) of
                Inl e \<Rightarrow> (Some e, s1)
              | Inr pre_segs \<Rightarrow>
                 (case decode_labels pre_segs of
                    Inl e \<Rightarrow> (Some e, s1)
                  | Inr labelmap \<Rightarrow>
                     (case copy_information E labelmap (seg_path (fst bb)) of
                        Some e \<Rightarrow> (Some e, s1)
                      | None \<Rightarrow>
                         (let s2 = s1\<lparr>printed := printed s1 @
                                    [Writing (destination a (patient_id (fst bb)))]\<rparr>
                          in (case write_image E labelmap (seg_path (fst bb))
                                    (destination a (patient_id (fst bb))) of
                                Some e \<Rightarrow> (Some e, s2)
                              | None \<Rightarrow>
                                  (None, s2\<lparr>written := written s2 @
                                     [(destination a (patient_id (fst bb)), labelmap)]\<rparr>))))))))"

fun cases_loop ::
  "collaborators \<Rightarrow> args \<Rightarrow> model list \<Rightarrow> string list \<Rightarrow> state \<Rightarrow> (batch \<times> batch) list \<Rightarrow> error option \<times> state" where
  "cases_loop E a models normalisations s [] = (None, s)"
| "cases_loop E a models normalisations s (bb # rest) =
     (case process_case E a models normalisations s bb of
        (Some e, s') \<Rightarrow> (Some e, s')
      | (None, s') \<Rightarrow> cases_loop E a models normalisations s' rest)"

text \<open>Before the first case nothing is bound and nothing has happened.\<close>

definition initial_state :: state where
  "initial_state =
     \<lparr>inputs = None, pads = None, crops_idx = None, last_norm = None, model_preds = [],
      trace = [], printed = [], written = []\<rparr>"

definition generate_segmentations ::
  "collaborators \<Rightarrow> batch list \<times> batch list \<Rightarrow> model list \<Rightarrow> string list \<Rightarrow> args \<Rightarrow> error option \<times> state" where
  "generate_segmentations E data_loaders models normalisations a =
     cases_loop E a models normalisations initial_state
       (zip (fst data_loaders) (snd data_loaders))"

section \<open>Device residency\<close>

text \<open>The models on the device after a sequence of events, from the models there before.\<close>

fun device_step :: "nat set \<Rightarrow> event \<Rightarrow> nat set" where
  "device_step R (Model_cuda i) = insert i R"
| "device_step R (Model_cpu i) = R - {i}"
| "device_step R (Forward i) = R"
| "device_step R (Inputs_cuda v) = R"

definition resident :: "event list \<Rightarrow> nat set" where
  "resident tr = foldl device_step {} tr"

text \<open>
  The discipline of loading and unloading, checked along a sequence of events from the
  set of models on the device before it: a model is moved on only when the device holds
  none, it computes only while it is the one on the device, and it is the one moved off.
\<close>

fun one_at_a_time :: "nat set \<Rightarrow> event list \<Rightarrow> bool" where
  "one_at_a_time R [] = True"
| "one_at_a_time R (Model_cuda i # es) = (R = {} \<and> one_at_a_time {i} es)"
| "one_at_a_time R (Model_cpu i # es) = (R = {i} \<and> one_at_a_time {} es)"
| "one_at_a_time R (Forward i # es) = (R = {i} \<and> one_at_a_time R es)"
| "one_at_a_time R (Inputs_cuda v # es) = one_at_a_time R es"

text \<open>
  A sequence of events that keeps the discipline from an empty device and leaves the
  device empty.
\<close>

definition idle :: "event list \<Rightarrow> bool" where
  "idle tr = (one_at_a_time {} tr \<and> resident tr = {})"

text \<open>The destinations announced by the \<open>Writing\<close> lines of an output, in order.\<close>

fun announced :: "output_line list \<Rightarrow> string list" where
  "announced [] = []"
| "announced (Writing d # ls) = d # announced ls"
| "announced (Pre_segs_size sh # ls) = announced ls"
| "announced (Segs_size sh # ls) = announced ls"

section \<open>A small ensemble to run\<close>

text \<open>
  Sample collaborators for running the loop on concrete inputs: an image of 2 by 2 by 2
  voxels in four modalities, padded by 1, 0 and 3; networks that return zero logits on the
  padded extent; an augmentation that returns the probability 0.9 everywhere; a writer that
  never fails.
\<close>

definition demo_model :: "nat \<Rightarrow> model" where
  "demo_model i =
     \<lparr>mid = i, deep_supervision = False,
      forward = (\<lambda>x. full [1, 3, 3, 2, 5] 0),
      forward_deep = (\<lambda>x. (full [1, 3, 3, 2, 5] 0, []))\<rparr>"

definition demo_collaborators :: collaborators where
  "demo_collaborators =
     \<lparr>pad_batch1_to_compatible_size = (\<lambda>t. (\<lparr>shape = [1, 4, 3, 2, 5], elem = elem t\<rparr>, (1, 0, 3))),
      apply_simple_tta = (\<lambda>m x. full [1, 3, 3, 2, 5] (9 / 10)),
      copy_information = (\<lambda>labelmap ref. None),
      write_image = (\<lambda>labelmap ref dest. None)\<rparr>"

definition demo_batch :: "string \<Rightarrow> crop_window \<Rightarrow> batch" where
  "demo_batch pid w =
     \<lparr>patient_id = pid, seg_path = pid @ ''_seg.nii.gz'', crop_indexes = w,
      image_in = full [1, 4, 2, 2, 2] 0\<rparr>"

definition demo_args :: "bool \<Rightarrow> args" where
  "demo_args t = \<lparr>tta = t, pred_folder = ''preds''\<rparr>"

definition demo_window :: crop_window where
  "demo_window = ((10, 12), (20, 22), (30, 32))"

section \<open>Slices, truncation and placement\<close>

lemma slice_index_in: "0 \<le> i \<Longrightarrow> i \<le> int n \<Longrightarrow> slice_index i n = nat i"
  by (simp add: slice_index_def)

lemma slice_span:
  "0 \<le> a \<Longrightarrow> a \<le> b \<Longrightarrow> b \<le> int n \<Longrightarrow> slice_index b n - slice_index a n = nat (b - a)"
  by (simp add: slice_index_def nat_diff_distrib')

lemma slice_lower: "0 \<le> a \<Longrightarrow> a \<le> int n \<Longrightarrow> slice_index a n \<le> z \<longleftrightarrow> a \<le> int z"
  by (auto simp add: slice_index_def)

lemma slice_upper: "0 \<le> b \<Longrightarrow> b \<le> int n \<Longrightarrow> z < slice_index b n \<longleftrightarrow> int z < b"
  by (auto simp add: slice_index_def)

lemma strip_ones_3: "strip_ones (3 # s) = 3 # s"
  by (simp add: strip_ones_def)

lemma expandable_3:
  "expandable [3, Z, Y, X] [3, dz, dy, dx] \<longleftrightarrow>
     (Z = dz \<or> Z = 1) \<and> (Y = dy \<or> Y = 1) \<and> (X = dx \<or> X = 1)"
  by (auto simp add: expandable_def strip_ones_3)

lemma remove_pads_shape5:
  assumes "shape raw = n # c # Z # Y # X # rest"
  shows "remove_pads raw (pz, py, px) =
     Inr \<lparr>shape = n # c # slice_index (int Z - pz) Z # slice_index (int Y - py) Y
                   # slice_index (int X - px) X # rest,
          elem = elem raw\<rparr>"
  using assms by (simp add: remove_pads_def size_dim_def slice_zyx_def)

text \<open>
  A pad amount above the length of its axis makes the bound of the slice negative, and
  the slice then counts from the end of the axis.
\<close>

lemma remove_pads_wraps:
  "remove_pads \<lparr>shape = [1, 3, 4, 4, 4], elem = g\<rparr> (6, 0, 0) =
     Inr \<lparr>shape = [1, 3, 2, 4, 4], elem = g\<rparr>"
  by (simp add: remove_pads_def size_dim_def slice_zyx_def slice_index_def)

text \<open>
  Claim C6. When the pad amounts are not negative and not above the lengths of the raw
  output's spatial axes, removing the pads shortens each spatial axis by exactly its pad
  amount and keeps the element at every remaining index, that is, the leading region; the
  placement then works on this truncated tensor.
\<close>

theorem remove_pads_truncates:
  assumes "shape raw = n # c # Z # Y # X # rest"
    and "0 \<le> pz" "pz \<le> int Z" "0 \<le> py" "py \<le> int Y" "0 \<le> px" "px \<le> int X"
  shows "\<exists>t. remove_pads raw (pz, py, px) = Inr t
     \<and> shape t = n # c # (Z - nat pz) # (Y - nat py) # (X - nat px) # rest
     \<and> elem t = elem raw
     \<and> reconstruct raw (pz, py, px) w = place t w"
  using assms
  by (simp add: remove_pads_shape5 reconstruct_def slice_index_in nat_diff_distrib')

theorem remove_pads_truncates_witness:
  "\<exists>t. remove_pads \<lparr>shape = [1, 3, 3, 2, 5], elem = (\<lambda>idx. real (sum_list idx))\<rparr> (1, 0, 3) = Inr t
     \<and> shape t = [1, 3, 2, 2, 2]
     \<and> elem t [0, 1, 1, 1, 1] = 4"
proof -
  let ?raw = "\<lparr>shape = [1, 3, 3, 2, 5], elem = (\<lambda>idx. real (sum_list idx))\<rparr>"
  have "shape ?raw = 1 # 3 # 3 # 2 # 5 # []" by simp
  from remove_pads_truncates [OF this, of 1 0 3 "((10, 12), (20, 22), (30, 32))"]
  obtain t where "remove_pads ?raw (1, 0, 3) = Inr t"
    and "shape t = [1, 3, 2, 2, 2]" and "elem t = elem ?raw"
    by auto
  then show ?thesis by simp
qed

text \<open>
  Claim C5. For pad amounts that are not negative and a crop window inside the canonical
  frame, reconstructing the constant tensor of value \<open>v\<close> whose extent is the window's
  plus the pads gives a field of the canonical shape that is \<open>v\<close> at the voxels inside
  the window and 0 at the voxels outside it, in each of the three channels.
\<close>

theorem reconstruct_constant:
  assumes p: "0 \<le> pz" "0 \<le> py" "0 \<le> px"
    and z: "0 \<le> z0" "z0 \<le> z1" "z1 \<le> 155"
    and y: "0 \<le> y0" "y0 \<le> y1" "y1 \<le> 240"
    and x: "0 \<le> x0" "x0 \<le> x1" "x1 \<le> 240"
  shows "\<exists>F. reconstruct
               (full [1, 3, nat (z1 - z0 + pz), nat (y1 - y0 + py), nat (x1 - x0 + px)] v)
               (pz, py, px) ((z0, z1), (y0, y1), (x0, x1)) = Inr F
     \<and> shape F = [1, 3, 155, 240, 240]
     \<and> (\<forall>c z y x. c < 3 \<longrightarrow> elem F [0, c, z, y, x] =
           (if z0 \<le> int z \<and> int z < z1 \<and> y0 \<le> int y \<and> int y < y1
               \<and> x0 \<le> int x \<and> int x < x1
            then v else 0))"
proof -
  let ?raw = "full [1, 3, nat (z1 - z0 + pz), nat (y1 - y0 + py), nat (x1 - x0 + px)] v"
  let ?t = "full [1, 3, nat (z1 - z0), nat (y1 - y0), nat (x1 - x0)] v"
  have rp: "remove_pads ?raw (pz, py, px) = Inr ?t"
    using p z y x by (simp add: remove_pads_shape5 [where rest = "[]"] full_def slice_index_in)
  have ex: "expandable [3, nat (z1 - z0), nat (y1 - y0), nat (x1 - x0)]
      [3, slice_index z1 155 - slice_index z0 155, slice_index y1 240 - slice_index y0 240,
       slice_index x1 240 - slice_index x0 240]"
    using z y x by (simp add: expandable_def slice_span)
  have pl: "\<exists>F. place ?t ((z0, z1), (y0, y1), (x0, x1)) = Inr F
     \<and> shape F = [1, 3, 155, 240, 240]
     \<and> (\<forall>c z y x. c < 3 \<longrightarrow> elem F [0, c, z, y, x] =
           (if z0 \<le> int z \<and> int z < z1 \<and> y0 \<le> int y \<and> int y < y1
               \<and> x0 \<le> int x \<and> int x < x1
            then v else 0))"
    using z y x ex
    by (simp add: place_def select_def full_def assign_crop_def canonical_def
        zeros_def slice_lower slice_upper Let_def)
  show ?thesis
    unfolding reconstruct_def rp using pl by simp
qed

theorem reconstruct_constant_witness:
  "\<exists>F. reconstruct (full [1, 3, 3, 2, 5] (9 / 10)) (1, 0, 3) ((10, 12), (20, 22), (30, 32)) = Inr F
     \<and> shape F = [1, 3, 155, 240, 240]
     \<and> elem F [0, 0, 10, 20, 30] = 9 / 10
     \<and> elem F [0, 2, 11, 21, 31] = 9 / 10
     \<and> elem F [0, 0, 9, 20, 30] = 0
     \<and> elem F [0, 2, 12, 21, 31] = 0
     \<and> elem F [0, 1, 154, 239, 239] = 0"
proof -
  from reconstruct_constant [of 1 0 3 10 12 20 22 30 32 "9 / 10"]
  obtain F where r: "reconstruct (full [1, 3, 3, 2, 5] (9 / 10)) (1, 0, 3)
        ((10, 12), (20, 22), (30, 32)) = Inr F"
    and s: "shape F = [1, 3, 155, 240, 240]"
    and e: "\<And>c z y x. c < 3 \<Longrightarrow> elem F [0, c, z, y, x] =
           (if 10 \<le> int z \<and> int z < 12 \<and> 20 \<le> int y \<and> int y < 22
               \<and> 30 \<le> int x \<and> int x < 32
            then 9 / 10 else 0)"
    by auto
  from e [of 0 10 20 30] e [of 2 11 21 31] e [of 0 9 20 30] e [of 2 12 21 31]
    e [of 1 154 239 239]
  have "elem F [0, 0, 10, 20, 30] = 9 / 10" "elem F [0, 2, 11, 21, 31] = 9 / 10"
    "elem F [0, 0, 9, 20, 30] = 0" "elem F [0, 2, 12, 21, 31] = 0"
    "elem F [0, 1, 154, 239, 239] = 0"
    by simp_all
  with r s show ?thesis by blast
qed

text \<open>
  When the placement of a truncated prediction of three channels fails: exactly when a
  spatial axis has neither the length of the window's slice on that axis nor length 1.
\<close>

lemma place_error_iff:
  assumes "shape t = [Suc n, 3, Z, Y, X]"
  shows "place t ((z0, z1), (y0, y1), (x0, x1)) = Inl RuntimeError \<longleftrightarrow>
     \<not> ((Z = slice_index z1 155 - slice_index z0 155 \<or> Z = 1) \<and>
        (Y = slice_index y1 240 - slice_index y0 240 \<or> Y = 1) \<and>
        (X = slice_index x1 240 - slice_index x0 240 \<or> X = 1))"
  using assms
  by (simp add: place_def select_def assign_crop_def canonical_def zeros_def full_def
      expandable_3 Let_def)

text \<open>
  Claim C4, as the code has it. For a crop window inside the canonical frame, if on some
  spatial axis the truncated prediction is longer than the window's span and longer than
  one element, the reconstruction fails with the RuntimeError of the slice assignment.
  An axis of length 1 does not fail: its element is repeated over the window.
\<close>

theorem reconstruct_shape_mismatch:
  assumes "remove_pads raw pd = Inr t" and "shape t = [Suc n, 3, Z, Y, X]"
    and "0 \<le> z0" "z0 \<le> z1" "z1 \<le> 155"
    and "0 \<le> y0" "y0 \<le> y1" "y1 \<le> 240"
    and "0 \<le> x0" "x0 \<le> x1" "x1 \<le> 240"
    and "(z1 - z0 < int Z \<and> 1 < Z) \<or> (y1 - y0 < int Y \<and> 1 < Y) \<or> (x1 - x0 < int X \<and> 1 < X)"
  shows "reconstruct raw pd ((z0, z1), (y0, y1), (x0, x1)) = Inl RuntimeError"
proof -
  have "\<not> ((Z = nat (z1 - z0) \<or> Z = 1) \<and> (Y = nat (y1 - y0) \<or> Y = 1)
      \<and> (X = nat (x1 - x0) \<or> X = 1))"
    using assms(3-) by auto
  then have "place t ((z0, z1), (y0, y1), (x0, x1)) = Inl RuntimeError"
    using assms(3-11) by (simp add: place_error_iff [OF assms(2)] slice_span)
  then show ?thesis
    by (simp add: reconstruct_def assms(1))
qed

theorem reconstruct_shape_mismatch_witness:
  "reconstruct (full [1, 3, 4, 2, 5] (9 / 10)) (1, 0, 3) ((10, 12), (20, 22), (30, 32)) =
     Inl RuntimeError"
proof -
  have r: "remove_pads (full [1, 3, 4, 2, 5] (9 / 10)) (1, 0, 3) = Inr (full [1, 3, 3, 2, 2] (9 / 10))"
    by (simp add: remove_pads_def size_dim_def slice_zyx_def slice_index_in full_def)
  have s: "shape (full [1, 3, 3, 2, 2] (9 / 10 :: real)) = [Suc 0, 3, 3, 2, 2]"
    by (simp add: full_def)
  show ?thesis
    by (rule reconstruct_shape_mismatch [OF r s]) simp_all
qed

text \<open>
  The claim as the specification states it fails for an empty window: a truncated
  prediction with one slice along Z exceeds the span 0 of the window \<open>[5, 5)\<close>, and the
  assignment succeeds, dropping the slice without an error.
\<close>

theorem reconstruct_empty_window_counterexample:
  "reconstruct (full [1, 3, 1, 2, 2] (9 / 10)) (0, 0, 0) ((5, 5), (0, 2), (0, 2)) =
     Inr (zeros canonical)"
  by (simp add: reconstruct_def remove_pads_def size_dim_def slice_zyx_def slice_index_in
      place_def select_def assign_crop_def expandable_def strip_ones_def canonical_def
      zeros_def full_def fun_eq_iff)

section \<open>Aggregation\<close>

lemma torch_stack_Inr:
  assumes "torch_stack ts = Inr s"
  shows "ts \<noteq> [] \<and> shape s = length ts # shape (hd ts)
     \<and> elem s (k # r) = (if k < length ts then elem (ts ! k) r else 0)"
  using assms by (cases ts) (auto simp add: torch_stack_def split: if_splits)

text \<open>
  The reduction of line 181, when it succeeds, is the elementwise arithmetic mean of the
  accumulated tensors.
\<close>

lemma stack_mean_elem:
  assumes "stack_mean ts = Inr f"
  shows "ts \<noteq> [] \<and> shape f = shape (hd ts)
     \<and> elem f idx = (\<Sum>t\<leftarrow>ts. elem t idx) / real (length ts)"
proof -
  from assms obtain s where s: "torch_stack ts = Inr s" and f: "f = mean_dim0 s"
    by (auto simp add: stack_mean_def split: sum.splits)
  have m: "map (\<lambda>k. if k < length ts then elem (ts ! k) idx else 0) [0..<length ts] =
      map (\<lambda>t. elem t idx) ts"
    by (rule nth_equalityI) simp_all
  from torch_stack_Inr [OF s] have ne: "ts \<noteq> []" and sh: "shape s = length ts # shape (hd ts)"
    and el: "\<And>k. elem s (k # idx) = (if k < length ts then elem (ts ! k) idx else 0)"
    by simp_all
  show ?thesis
    by (simp add: f mean_dim0_def sh el m ne)
qed

text \<open>
  Claim C9. The reduction of a list of one prediction field returns that field, unchanged.
\<close>

theorem stack_mean_single: "stack_mean [t] = Inr t"
  by (simp add: stack_mean_def torch_stack_def mean_dim0_def)

section \<open>Label decoding\<close>

text \<open>
  Claim C7. On an averaged field (a first axis that is not empty, at least three channels)
  the decoder of lines 184 to 191 returns, at every voxel, the label that the
  specification's steps give for the three channel probabilities of the voxel: threshold
  at 0.5, enhancing = mask0, necrotic = mask1 and not enhancing, edema = mask2 and not
  mask1, output 0, then 4 for enhancing, then 1 for necrotic, then 2 for edema. In
  particular the probabilities (0.9, 0.9, 0.9) give 4, (0.1, 0.9, 0.9) give 1,
  (0.1, 0.1, 0.9) give 2 and (0.1, 0.1, 0.1) give 0.
\<close>

theorem decode_labels_hierarchy:
  "decode_labels \<lparr>shape = Suc n # (3 + c) # rest, elem = g\<rparr> =
     Inr \<lparr>shape = rest,
          elem = (\<lambda>idx. spec_label (g (0 # 0 # idx)) (g (0 # 1 # idx)) (g (0 # 2 # idx)))\<rparr>
   \<and> spec_label (9 / 10) (9 / 10) (9 / 10) = 4
   \<and> spec_label (1 / 10) (9 / 10) (9 / 10) = 1
   \<and> spec_label (1 / 10) (1 / 10) (9 / 10) = 2
   \<and> spec_label (1 / 10) (1 / 10) (1 / 10) = 0"
proof -
  have "decode_labels \<lparr>shape = Suc n # (3 + c) # rest, elem = g\<rparr> =
     Inr \<lparr>shape = rest,
          elem = (\<lambda>idx. spec_label (g (0 # 0 # idx)) (g (0 # 1 # idx)) (g (0 # 2 # idx)))\<rparr>"
    by (simp add: decode_labels_def select_def greater_than_def logical_and_def
        logical_not_def mask_assign_def zeros_def full_def spec_label_def Let_def fun_eq_iff)
  moreover have "spec_label (9 / 10) (9 / 10) (9 / 10) = 4"
    "spec_label (1 / 10) (9 / 10) (9 / 10) = 1"
    "spec_label (1 / 10) (1 / 10) (9 / 10) = 2"
    "spec_label (1 / 10) (1 / 10) (1 / 10) = 0"
    by (simp_all add: spec_label_def)
  ultimately show ?thesis by simp
qed

text \<open>
  The decoder run on a field of the canonical shape whose voxel \<open>(0, 0, x)\<close> has the
  probability 0.9 in the channels from \<open>x\<close> on and 0.1 in the channels before.
\<close>

theorem decode_labels_hierarchy_witness:
  "\<exists>L. decode_labels \<lparr>shape = [1, 3, 155, 240, 240],
                       elem = (\<lambda>idx. if idx ! 4 \<le> idx ! 1 then 9 / 10 else 1 / 10)\<rparr> = Inr L
     \<and> shape L = [155, 240, 240]
     \<and> elem L [0, 0, 0] = 4 \<and> elem L [0, 0, 1] = 1 \<and> elem L [0, 0, 2] = 2
     \<and> elem L [0, 0, 3] = 0"
proof -
  let ?g = "\<lambda>idx :: nat list. if idx ! 4 \<le> idx ! 1 then 9 / 10 else 1 / 10 :: real"
  have "\<lparr>shape = [1, 3, 155, 240, 240], elem = ?g\<rparr> =
      \<lparr>shape = Suc 0 # (3 + 0) # [155, 240, 240], elem = ?g\<rparr>"
    by simp
  with decode_labels_hierarchy [of 0 0 "[155, 240, 240]" ?g]
  have "decode_labels \<lparr>shape = [1, 3, 155, 240, 240], elem = ?g\<rparr> =
     Inr \<lparr>shape = [155, 240, 240],
          elem = (\<lambda>idx. spec_label (?g (0 # 0 # idx)) (?g (0 # 1 # idx)) (?g (0 # 2 # idx)))\<rparr>"
    by simp
  then show ?thesis
    by (simp add: spec_label_def)
qed

section \<open>Device residency of the models\<close>

lemma one_at_a_time_append:
  "one_at_a_time R (xs @ ys) =
     (one_at_a_time R xs \<and> one_at_a_time (foldl device_step R xs) ys)"
proof (induction xs arbitrary: R)
  case Nil
  then show ?case by simp
next
  case (Cons e es)
  show ?case
  proof (cases e)
    case (Model_cuda i)
    show ?thesis unfolding Model_cuda by (cases "R = {}") (simp_all add: Cons.IH)
  next
    case (Model_cpu i)
    show ?thesis unfolding Model_cpu by (cases "R = {i}") (simp_all add: Cons.IH)
  next
    case (Forward i)
    show ?thesis unfolding Forward by (cases "R = {i}") (simp_all add: Cons.IH)
  next
    case (Inputs_cuda v)
    show ?thesis unfolding Inputs_cuda by (simp add: Cons.IH)
  qed
qed

lemma one_at_a_time_card:
  "one_at_a_time R es \<Longrightarrow> card R \<le> 1 \<Longrightarrow> card (foldl device_step R (take k es)) \<le> 1"
proof (induction es arbitrary: R k)
  case Nil
  then show ?case by simp
next
  case (Cons e es)
  show ?case
  proof (cases k)
    case 0
    with Cons.prems show ?thesis by simp
  next
    case (Suc j)
    show ?thesis
    proof (cases e)
      case (Model_cuda i)
      with Cons.prems have "one_at_a_time {i} es" "R = {}" by auto
      with Cons.IH [of "{i}" j] show ?thesis by (simp add: Suc Model_cuda)
    next
      case (Model_cpu i)
      with Cons.prems have "one_at_a_time {} es" "R = {i}" by auto
      with Cons.IH [of "{}" j] show ?thesis by (simp add: Suc Model_cpu)
    next
      case (Forward i)
      with Cons.prems have "one_at_a_time R es" by auto
      with Cons.IH [of R j] Cons.prems(2) show ?thesis by (simp add: Suc Forward)
    next
      case (Inputs_cuda v)
      with Cons.prems have "one_at_a_time R es" by simp
      with Cons.IH [of R j] Cons.prems(2) show ?thesis by (simp add: Suc Inputs_cuda)
    qed
  qed
qed

lemma route_idle: "idle (trace s) \<Longrightarrow> idle (trace (route p n s))"
  by (simp add: route_def idle_def one_at_a_time_append resident_def)

text \<open>
  One iteration keeps the discipline; when it raises nothing it leaves the device empty.
\<close>

lemma model_step_trace:
  assumes "idle (trace s)"
  shows "one_at_a_time {} (trace (snd (model_step E a p s mn)))
     \<and> (fst (model_step E a p s mn) = None \<longrightarrow> idle (trace (snd (model_step E a p s mn))))"
proof -
  obtain m n where mn: "mn = (m, n)" by (cases mn)
  have r: "idle (trace (route p n s))" using assms by (rule route_idle)
  show ?thesis
    using r unfolding mn
    by (simp add: model_step_def Let_def idle_def one_at_a_time_append resident_def
        split: option.split prod.split sum.split)
qed

lemma models_loop_trace:
  "idle (trace s) \<Longrightarrow>
   one_at_a_time {} (trace (snd (models_loop E a p s mns)))
     \<and> (fst (models_loop E a p s mns) = None \<longrightarrow> idle (trace (snd (models_loop E a p s mns))))"
proof (induction mns arbitrary: s)
  case Nil
  then show ?case by (simp add: idle_def)
next
  case (Cons mn mns)
  from model_step_trace [OF Cons.prems, of E a p mn] Cons.IH
  show ?case
    by (cases "model_step E a p s mn") (auto split: option.split)
qed

lemma process_case_trace:
  assumes "idle (trace s)"
  shows "one_at_a_time {} (trace (snd (process_case E a ms ns s bb)))
     \<and> (fst (process_case E a ms ns s bb) = None \<longrightarrow>
          idle (trace (snd (process_case E a ms ns s bb))))"
proof -
  let ?s0 = "s\<lparr>model_preds := [], last_norm := None\<rparr>"
  have "idle (trace ?s0)" using assms by simp
  from models_loop_trace [OF this, of E a "prepare E bb" "zip ms ns"]
  show ?thesis
    by (cases "models_loop E a (prepare E bb) ?s0 (zip ms ns)")
       (auto simp add: process_case_def Let_def split: option.split sum.split)
qed

lemma cases_loop_trace:
  "idle (trace s) \<Longrightarrow> one_at_a_time {} (trace (snd (cases_loop E a ms ns s bbs)))"
proof (induction bbs arbitrary: s)
  case Nil
  then show ?case by (simp add: idle_def)
next
  case (Cons bb bbs)
  from process_case_trace [OF Cons.prems, of E a ms ns bb] Cons.IH
  show ?case
    by (cases "process_case E a ms ns s bb") (auto split: option.split)
qed

text \<open>
  Claim C8. In every run of \<open>generate_segmentations\<close>, from a device that holds no model
  at the start, whatever the cases, the ensemble and its size, and whether or not a case
  fails: the events keep the discipline (a model is moved on only when the device holds
  none, it computes only while it is the one on the device, and it is moved off before the
  next is moved on), and after every event at most one model is on the device.
\<close>

theorem one_model_resident:
  "one_at_a_time {} (trace (snd (generate_segmentations E dl ms ns a)))
   \<and> (\<forall>k. card (resident (take k (trace (snd (generate_segmentations E dl ms ns a))))) \<le> 1)"
proof -
  have "idle (trace initial_state)"
    by (simp add: idle_def initial_state_def resident_def)
  then have d: "one_at_a_time {} (trace (snd (generate_segmentations E dl ms ns a)))"
    unfolding generate_segmentations_def by (rule cases_loop_trace)
  then show ?thesis
    using one_at_a_time_card [OF d] by (simp add: resident_def)
qed

section \<open>Errors and the case loop\<close>

lemma cases_loop_append:
  "cases_loop E a ms ns s (xs @ ys) =
     (case cases_loop E a ms ns s xs of
        (Some e, s') \<Rightarrow> (Some e, s')
      | (None, s') \<Rightarrow> cases_loop E a ms ns s' ys)"
  by (induction xs arbitrary: s) (auto split: prod.split option.split)

lemmas demo_defs =
  demo_model_def demo_collaborators_def demo_batch_def demo_args_def demo_window_def

lemmas run_defs =
  generate_segmentations_def process_case_def model_step_def route_def predict_def
  prepare_def initial_state_def destination_def

lemmas reconstruct_defs =
  remove_pads_local_def place_local_def
  reconstruct_def remove_pads_def size_dim_def slice_zyx_def slice_index_in place_def
  select_def assign_crop_def expandable_def strip_ones_def canonical_def zeros_def full_def

lemmas aggregate_defs =
  stack_mean_def torch_stack_def decode_labels_def sigmoid_tensor_def mean_dim0_def
  greater_than_def

text \<open>
  Only a case that is processed to its end adds a file to those written and, with it, the
  announcement of line 195. A case that fails writes nothing; it has printed its
  announcement only if the error came after line 195.
\<close>

lemma announced_append: "announced (xs @ ys) = announced xs @ announced ys"
proof (induction xs)
  case Nil
  then show ?case by simp
next
  case (Cons l ls)
  then show ?case by (cases l) simp_all
qed

lemma route_outputs: "written (route p n s) = written s \<and> printed (route p n s) = printed s"
  by (simp add: route_def)

lemma model_step_outputs:
  "written (snd (model_step E a p s mn)) = written s
   \<and> announced (printed (snd (model_step E a p s mn))) = announced (printed s)"
  by (cases mn)
     (simp add: model_step_def Let_def route_outputs announced_append
        split: option.split prod.split sum.split)

lemma models_loop_outputs:
  "written (snd (models_loop E a p s mns)) = written s
   \<and> announced (printed (snd (models_loop E a p s mns))) = announced (printed s)"
proof (induction mns arbitrary: s)
  case Nil
  then show ?case by simp
next
  case (Cons mn mns)
  from model_step_outputs [of E a p s mn] Cons.IH
  show ?case
    by (cases "model_step E a p s mn") (auto split: option.split)
qed

lemma process_case_written:
  "fst (process_case E a ms ns s bb) = None \<Longrightarrow>
     map fst (written (snd (process_case E a ms ns s bb))) =
       map fst (written s) @ [destination a (patient_id (fst bb))]
     \<and> announced (printed (snd (process_case E a ms ns s bb))) =
       announced (printed s) @ [destination a (patient_id (fst bb))]"
  using models_loop_outputs [of E a "prepare E bb" "s\<lparr>model_preds := [], last_norm := None\<rparr>" "zip ms ns"]
  by (cases "models_loop E a (prepare E bb) (s\<lparr>model_preds := [], last_norm := None\<rparr>) (zip ms ns)")
     (auto simp add: process_case_def Let_def announced_append split: option.splits sum.splits)

lemma process_case_failed:
  "fst (process_case E a ms ns s bb) = Some e \<Longrightarrow>
     written (snd (process_case E a ms ns s bb)) = written s
     \<and> (announced (printed (snd (process_case E a ms ns s bb))) = announced (printed s)
        \<or> announced (printed (snd (process_case E a ms ns s bb))) =
             announced (printed s) @ [destination a (patient_id (fst bb))])"
  using models_loop_outputs [of E a "prepare E bb" "s\<lparr>model_preds := [], last_norm := None\<rparr>" "zip ms ns"]
  by (cases "models_loop E a (prepare E bb) (s\<lparr>model_preds := [], last_norm := None\<rparr>) (zip ms ns)")
     (auto simp add: process_case_def Let_def announced_append split: option.splits sum.splits)

lemma cases_loop_written:
  "fst (cases_loop E a ms ns s bbs) = None \<Longrightarrow>
     map fst (written (snd (cases_loop E a ms ns s bbs))) =
       map fst (written s) @ map (\<lambda>bb. destination a (patient_id (fst bb))) bbs
     \<and> announced (printed (snd (cases_loop E a ms ns s bbs))) =
       announced (printed s) @ map (\<lambda>bb. destination a (patient_id (fst bb))) bbs"
proof (induction bbs arbitrary: s)
  case Nil
  then show ?case by simp
next
  case (Cons bb bbs)
  obtain r s1 where pc: "process_case E a ms ns s bb = (r, s1)"
    by (cases "process_case E a ms ns s bb")
  with Cons.prems have r: "r = None" and l: "fst (cases_loop E a ms ns s1 bbs) = None"
    by (auto split: option.splits)
  from process_case_written [of E a ms ns s bb] pc r
  have "map fst (written s1) = map fst (written s) @ [destination a (patient_id (fst bb))]"
    and "announced (printed s1) = announced (printed s) @ [destination a (patient_id (fst bb))]"
    by simp_all
  with Cons.IH [OF l] show ?case
    by (simp add: pc r)
qed


text \<open>
  Claim C2, as the code has it. \<open>generate_segmentations\<close> catches nothing: when the
  cases before a case are processed without an error and that case raises an error, of
  whatever kind, the run ends there with that error, in the state the failing case left,
  and the cases after it play no part. The files written are exactly those of the cases
  before the failing one, and the announcements printed are those of the cases before it
  and at most that of the failing case.
\<close>

theorem case_error_ends_run:
  assumes "zip (fst dl) (snd dl) = pre @ bb # post"
    and "fst (cases_loop E a ms ns initial_state pre) = None"
    and "fst (process_case E a ms ns (snd (cases_loop E a ms ns initial_state pre)) bb) = Some e"
  shows "generate_segmentations E dl ms ns a =
     (Some e, snd (process_case E a ms ns (snd (cases_loop E a ms ns initial_state pre)) bb))
   \<and> map fst (written (snd (generate_segmentations E dl ms ns a))) =
       map (\<lambda>bb. destination a (patient_id (fst bb))) pre
   \<and> (announced (printed (snd (generate_segmentations E dl ms ns a))) =
         map (\<lambda>bb. destination a (patient_id (fst bb))) pre
      \<or> announced (printed (snd (generate_segmentations E dl ms ns a))) =
         map (\<lambda>bb. destination a (patient_id (fst bb))) (pre @ [bb]))"
proof -
  let ?s1 = "snd (cases_loop E a ms ns initial_state pre)"
  have run: "generate_segmentations E dl ms ns a = (Some e, snd (process_case E a ms ns ?s1 bb))"
    using assms
    by (cases "cases_loop E a ms ns initial_state pre"; cases "process_case E a ms ns ?s1 bb")
       (simp add: generate_segmentations_def cases_loop_append)
  from cases_loop_written [OF assms(2)]
  have w1: "map fst (written ?s1) = map (\<lambda>bb. destination a (patient_id (fst bb))) pre"
    and p1: "announced (printed ?s1) = map (\<lambda>bb. destination a (patient_id (fst bb))) pre"
    by (simp_all add: initial_state_def)
  from process_case_failed [OF assms(3)] w1 p1 show ?thesis
    by (auto simp add: run)
qed

text \<open>
  Three cases, the second with a window one voxel longer than the prediction: the first is
  written and announced, the run ends with the second's error, the third is not written.
\<close>

theorem case_error_ends_run_witness:
  "fst (generate_segmentations demo_collaborators
     ([demo_batch ''P1'' demo_window, demo_batch ''P2'' ((10, 13), (20, 22), (30, 32)),
       demo_batch ''P3'' demo_window],
      [demo_batch ''P1'' demo_window, demo_batch ''P2'' ((10, 13), (20, 22), (30, 32)),
       demo_batch ''P3'' demo_window])
     [demo_model 0] [''minmax''] (demo_args False)) = Some RuntimeError
   \<and> map fst (written (snd (generate_segmentations demo_collaborators
     ([demo_batch ''P1'' demo_window, demo_batch ''P2'' ((10, 13), (20, 22), (30, 32)),
       demo_batch ''P3'' demo_window],
      [demo_batch ''P1'' demo_window, demo_batch ''P2'' ((10, 13), (20, 22), (30, 32)),
       demo_batch ''P3'' demo_window])
     [demo_model 0] [''minmax''] (demo_args False)))) = [''preds/P1.nii.gz'']
   \<and> announced (printed (snd (generate_segmentations demo_collaborators
     ([demo_batch ''P1'' demo_window, demo_batch ''P2'' ((10, 13), (20, 22), (30, 32)),
       demo_batch ''P3'' demo_window],
      [demo_batch ''P1'' demo_window, demo_batch ''P2'' ((10, 13), (20, 22), (30, 32)),
       demo_batch ''P3'' demo_window])
     [demo_model 0] [''minmax''] (demo_args False)))) = [''preds/P1.nii.gz'']"
proof -
  let ?b1 = "demo_batch ''P1'' demo_window"
  let ?b2 = "demo_batch ''P2'' ((10, 13), (20, 22), (30, 32))"
  let ?b3 = "demo_batch ''P3'' demo_window"
  let ?dl = "([?b1, ?b2, ?b3], [?b1, ?b2, ?b3])"
  let ?s1 = "snd (cases_loop demo_collaborators (demo_args False) [demo_model 0] [''minmax'']
      initial_state [(?b1, ?b1)])"
  let ?run = "generate_segmentations demo_collaborators ?dl [demo_model 0] [''minmax'']
      (demo_args False)"
  have h1: "zip (fst ?dl) (snd ?dl) = [(?b1, ?b1)] @ (?b2, ?b2) # [(?b3, ?b3)]"
    by simp
  have h2: "fst (cases_loop demo_collaborators (demo_args False) [demo_model 0] [''minmax'']
      initial_state [(?b1, ?b1)]) = None"
    by (simp add: demo_defs run_defs reconstruct_defs aggregate_defs Let_def)
  have h3: "fst (process_case demo_collaborators (demo_args False) [demo_model 0] [''minmax'']
      ?s1 (?b2, ?b2)) = Some RuntimeError"
    by (simp add: demo_defs run_defs reconstruct_defs aggregate_defs Let_def)
  have d: "destination (demo_args False) (patient_id ?b1) = ''preds/P1.nii.gz''"
    by (simp add: demo_defs destination_def)
  note t = case_error_ends_run [OF h1 h2 h3]
  from t [THEN conjunct1] have r: "fst ?run = Some RuntimeError"
    by (simp only: fst_conv)
  from t [THEN conjunct2, THEN conjunct1] d
  have w: "map fst (written (snd ?run)) = [''preds/P1.nii.gz'']"
    by (simp only: list.map fst_conv)
  have p: "announced (printed (snd ?run)) = [''preds/P1.nii.gz'']"
    by (simp add: demo_defs run_defs reconstruct_defs aggregate_defs Let_def)
  from r w p show ?thesis by simp
qed

text \<open>
  The claim as the specification states it fails: the first of two cases raises the error
  of the slice assignment, the run ends with it and writes nothing, although the second
  case alone is processed and written.
\<close>

theorem case_error_not_caught_counterexample:
  "fst (generate_segmentations demo_collaborators
     ([demo_batch ''P1'' ((10, 13), (20, 22), (30, 32)), demo_batch ''P2'' demo_window],
      [demo_batch ''P1'' ((10, 13), (20, 22), (30, 32)), demo_batch ''P2'' demo_window])
     [demo_model 0] [''minmax''] (demo_args False)) = Some RuntimeError
   \<and> written (snd (generate_segmentations demo_collaborators
     ([demo_batch ''P1'' ((10, 13), (20, 22), (30, 32)), demo_batch ''P2'' demo_window],
      [demo_batch ''P1'' ((10, 13), (20, 22), (30, 32)), demo_batch ''P2'' demo_window])
     [demo_model 0] [''minmax''] (demo_args False))) = []
   \<and> map fst (written (snd (generate_segmentations demo_collaborators
     ([demo_batch ''P2'' demo_window], [demo_batch ''P2'' demo_window])
     [demo_model 0] [''minmax''] (demo_args False)))) = [''preds/P2.nii.gz'']"
  by (simp add: demo_defs run_defs reconstruct_defs aggregate_defs Let_def)

text \<open>
  Claim C10. A variant other than \<open>minmax\<close> and \<open>zscore\<close> makes the selection of lines
  141 to 150 bind nothing. When the first model of the ensemble declares one, the first
  case fails with the error of an unbound local variable, and the run with it: the model
  has been moved to the device, no input, pad amounts or crop window are bound, and no
  forward computation has run.
\<close>

theorem unknown_variant_unbound:
  assumes "normalisation \<noteq> ''minmax''" and "normalisation \<noteq> ''zscore''"
  shows "generate_segmentations E (b0 # l0, b1 # l1) (m # ms) (normalisation # ns) a =
           (Some UnboundLocalError, initial_state\<lparr>trace := [Model_cuda (mid m)]\<rparr>)
     \<and> inputs (snd (generate_segmentations E (b0 # l0, b1 # l1) (m # ms)
          (normalisation # ns) a)) = None
     \<and> pads (snd (generate_segmentations E (b0 # l0, b1 # l1) (m # ms)
          (normalisation # ns) a)) = None
     \<and> crops_idx (snd (generate_segmentations E (b0 # l0, b1 # l1) (m # ms)
          (normalisation # ns) a)) = None
     \<and> Forward i \<notin> set (trace (snd (generate_segmentations E (b0 # l0, b1 # l1) (m # ms)
          (normalisation # ns) a)))
     \<and> route p normalisation (s\<lparr>last_norm := None\<rparr>) = s\<lparr>last_norm := None\<rparr>"
  using assms
  by (simp add: generate_segmentations_def process_case_def model_step_def route_def
      initial_state_def)

theorem unknown_variant_unbound_witness:
  "generate_segmentations demo_collaborators
     ([demo_batch ''P1'' demo_window], [demo_batch ''P1'' demo_window])
     [demo_model 7, demo_model 8] [''znorm'', ''minmax''] (demo_args False) =
           (Some UnboundLocalError, initial_state\<lparr>trace := [Model_cuda 7]\<rparr>)"
  using unknown_variant_unbound [of "''znorm''" demo_collaborators
      "demo_batch ''P1'' demo_window" "[]" "demo_batch ''P1'' demo_window" "[]"
      "demo_model 7" "[demo_model 8]" "[''minmax'']" "demo_args False"]
  by (simp add: demo_model_def)

section \<open>The accumulated list and the input transfers\<close>

text \<open>
  With the locals bound, lines 169 to 175 of an iteration are the reconstruction.
\<close>

lemma reconstruct_local:
  "(case remove_pads_local pre_segs (Some pd) of
      Inl e \<Rightarrow> Inl e
    | Inr t \<Rightarrow> place_local t (Some ci)) = reconstruct pre_segs pd ci"
  by (simp add: remove_pads_local_def place_local_def reconstruct_def remove_pads_def place_def
      split: sum.split prod.split)

text \<open>
  Within a case \<open>last_norm\<close> stays \<open>None\<close>, so every model that requires \<open>minmax\<close>
  or \<open>zscore\<close> gets the tensor, the pad amounts and the crop window of its variant, by
  a new transfer.
\<close>

lemma route_transfers:
  assumes "last_norm s = None"
  shows "route p ''minmax'' s =
           s\<lparr>inputs := Some (inputs_minmax p), pads := Some (pads_minmax p),
             crops_idx := Some (crops_idx_minmax p),
             trace := trace s @ [Inputs_cuda ''minmax'']\<rparr>
     \<and> route p ''zscore'' s =
           s\<lparr>inputs := Some (inputs_zscore p), pads := Some (pads_zscore p),
             crops_idx := Some (crops_idx_zscore p),
             trace := trace s @ [Inputs_cuda ''zscore'']\<rparr>"
  using assms by (simp add: route_def)

lemma model_step_last_norm: "last_norm (snd (model_step E a p s mn)) = last_norm s"
  by (cases mn)
     (simp add: model_step_def route_def Let_def split: option.split prod.split sum.split)

lemma model_step_preds_length:
  "model_step E a p s mn = (None, s') \<Longrightarrow>
   length (model_preds s') = length (model_preds s) + (if tta a then 2 else 1)"
  by (cases mn)
     (auto simp add: model_step_def route_def predict_def Let_def
           split: option.splits prod.splits sum.splits if_splits)

text \<open>
  After the loop over the models has run without an error, the accumulated list holds one
  tensor for each model without augmentation, and two for each model with it.
\<close>

lemma models_loop_preds_length:
  "models_loop E a p s mns = (None, s') \<Longrightarrow>
   length (model_preds s') = length (model_preds s) + (if tta a then 2 else 1) * length mns"
proof (induction mns arbitrary: s)
  case Nil
  then show ?case by simp
next
  case (Cons mn mns)
  obtain r s1 where st: "model_step E a p s mn = (r, s1)"
    by (cases "model_step E a p s mn")
  with Cons.prems have r: "r = None" and l: "models_loop E a p s1 mns = (None, s')"
    by (auto split: option.splits)
  from model_step_preds_length [OF st [unfolded r]] Cons.IH [OF l]
  show ?case by (simp add: algebra_simps)
qed

text \<open>
  Claim C1, on one case and one model. With augmentation requested the loop accumulates
  two tensors for the one member, the augmented prediction as it came and the
  reconstructed field, and the reduction raises the error of stacking tensors of
  different shapes; without augmentation it accumulates the one reconstructed field and
  the case is processed.
\<close>

theorem tta_accumulates_twice:
  "fst (generate_segmentations demo_collaborators
     ([demo_batch ''P1'' demo_window], [demo_batch ''P1'' demo_window])
     [demo_model 0] [''minmax''] (demo_args True)) = Some RuntimeError
   \<and> map shape (model_preds (snd (generate_segmentations demo_collaborators
     ([demo_batch ''P1'' demo_window], [demo_batch ''P1'' demo_window])
     [demo_model 0] [''minmax''] (demo_args True)))) = [[1, 3, 3, 2, 5], [1, 3, 155, 240, 240]]
   \<and> fst (generate_segmentations demo_collaborators
     ([demo_batch ''P1'' demo_window], [demo_batch ''P1'' demo_window])
     [demo_model 0] [''minmax''] (demo_args False)) = None
   \<and> map shape (model_preds (snd (generate_segmentations demo_collaborators
     ([demo_batch ''P1'' demo_window], [demo_batch ''P1'' demo_window])
     [demo_model 0] [''minmax''] (demo_args False)))) = [[1, 3, 155, 240, 240]]"
  by (simp add: demo_defs run_defs reconstruct_defs aggregate_defs Let_def)

text \<open>
  Claim C3, on one case and two models that both require \<open>minmax\<close>. The input is
  transferred to the device for the first model and again for the second: \<open>last_norm\<close>
  is never assigned the variant in use, so the comparison of line 141 never holds.
\<close>

theorem same_variant_transfers_again:
  "trace (snd (generate_segmentations demo_collaborators
     ([demo_batch ''P1'' demo_window], [demo_batch ''P1'' demo_window])
     [demo_model 0, demo_model 1] [''minmax'', ''minmax''] (demo_args False))) =
     [Inputs_cuda ''minmax'', Model_cuda 0, Forward 0, Model_cpu 0,
      Inputs_cuda ''minmax'', Model_cuda 1, Forward 1, Model_cpu 1]"
  by (simp add: demo_defs run_defs reconstruct_defs aggregate_defs Let_def)

end
